theory Spec2Isabelle
  imports Main
begin

section \<open>Python values, exceptions and the transport collaborator\<close>

text \<open>
  The module \<^verbatim>\<open>seafileapi/repo.py\<close> is Python 3 (it uses f-strings and
  \<^verbatim>\<open>urllib.parse\<close>). A decoded JSON value is one of the Python values below
  (floating point numbers are left out). A JSON object is an association list read with
  \<open>map_of\<close>; a Python \<^verbatim>\<open>str\<close> and a Python \<^verbatim>\<open>bytes\<close> are both character lists.
\<close>

datatype json =
    JNull
  | JBool bool
  | JInt int
  | JStr string
  | JList "json list"
  | JObj "(string \<times> json) list"

text \<open>
  Every exception that the module can raise is a value. \<open>HttpError\<close> and
  \<open>TransportError\<close> are the failures of the transport collaborator, \<open>DoesNotExist\<close> is
  what the decorator \<^verbatim>\<open>raise_does_not_exist\<close> raises.
\<close>

datatype error =
    AssertionError
  | AttributeError string
  | KeyError json
  | IndexError
  | TypeError
  | ValueError string
  | JSONDecodeError
  | DoesNotExist string
  | HttpError nat
  | TransportError string

text \<open>
  The specification names failures by kind, not by Python class. The correspondence used
  throughout: a failed \<^verbatim>\<open>assert\<close> and a \<^verbatim>\<open>ValueError\<close> are its InvalidArgument,
  \<^verbatim>\<open>DoesNotExist\<close> is its NotFound, a missing key is its MalformedResponse, and the
  failures of the transport are its transport failures. The other exceptions have no kind
  in the specification.
\<close>

datatype failure_kind = InvalidArgument | NotFound | MalformedResponse | TransportFailure

fun kind_of :: "error \<Rightarrow> failure_kind option" where
  "kind_of AssertionError = Some InvalidArgument"
| "kind_of (ValueError m) = Some InvalidArgument"
| "kind_of (DoesNotExist m) = Some NotFound"
| "kind_of (KeyError k) = Some MalformedResponse"
| "kind_of (HttpError c) = Some TransportFailure"
| "kind_of (TransportError m) = Some TransportFailure"
| "kind_of e = None"

text \<open>
  What \<^verbatim>\<open>upload_file\<close> receives as \<^verbatim>\<open>fileobj\<close>: a \<^verbatim>\<open>str\<close>, a \<^verbatim>\<open>bytes\<close> value, or a
  stream (a file-like object, given by the bytes it holds).
\<close>

datatype fileobj = Text string | Bytes string | Stream string

text \<open>The \<^verbatim>\<open>files\<close> dictionary of the upload request (lines 80 to 84).\<close>

record upload_files =
  file_name :: string
  file_obj :: fileobj
  parent_dir :: string
  relative_path :: string

datatype request = GET string | POST string upload_files

text \<open>
  A response of the transport: its headers, its body as text, and what its
  \<^verbatim>\<open>json()\<close> accessor returns (\<open>None\<close> when the body does not decode, in which case the
  accessor raises).
\<close>

record response =
  resp_headers :: "string \<Rightarrow> string option"
  resp_text :: string
  resp_json :: "json option"

text \<open>
  The collaborators that are not part of the module: the transport client (its
  \<^verbatim>\<open>get\<close> and \<^verbatim>\<open>post\<close>, which act on the state \<open>'s\<close> of the remote service and either
  raise or return a response), the predicate \<^verbatim>\<open>validators.url\<close>, and Python's
  \<^verbatim>\<open>str()\<close> on values that are not strings. They are parameters of every operation.
\<close>

record ('c, 's) env =
  http_get :: "'c \<Rightarrow> string \<Rightarrow> 's \<Rightarrow> (error + response) \<times> 's"
  http_post :: "'c \<Rightarrow> string \<Rightarrow> upload_files \<Rightarrow> 's \<Rightarrow> (error + response) \<times> 's"
  validators_url :: "string \<Rightarrow> bool"
  str_of :: "json \<Rightarrow> string"

text \<open>
  The world an operation runs in: the requests issued so far, in order, and the state of
  the remote service.
\<close>

record 's world =
  calls :: "request list"
  srv :: 's

definition client_get ::
  "('c, 's) env \<Rightarrow> 'c \<Rightarrow> string \<Rightarrow> 's world \<Rightarrow> (error + response) \<times> 's world" where
  "client_get E c url w =
     (case http_get E c url (srv w) of
        (res, s') \<Rightarrow> (res, \<lparr>calls = calls w @ [GET url], srv = s'\<rparr>))"

definition client_post ::
  "('c, 's) env \<Rightarrow> 'c \<Rightarrow> string \<Rightarrow> upload_files \<Rightarrow> 's world \<Rightarrow> (error + response) \<times> 's world" where
  "client_post E c url files w =
     (case http_post E c url files (srv w) of
        (res, s') \<Rightarrow> (res, \<lparr>calls = calls w @ [POST url files], srv = s'\<rparr>))"

text \<open>Sequencing: an exception ends the operation and keeps the world reached so far.\<close>

definition and_then ::
  "(error + 'a) \<times> 'w \<Rightarrow> ('a \<Rightarrow> 'w \<Rightarrow> (error + 'b) \<times> 'w) \<Rightarrow> (error + 'b) \<times> 'w" where
  "and_then m k = (case m of (Inl e, w) \<Rightarrow> (Inl e, w) | (Inr a, w) \<Rightarrow> k a w)"

text \<open>The same for a computation that touches no world.\<close>

definition bind_exn :: "error + 'a \<Rightarrow> ('a \<Rightarrow> error + 'b) \<Rightarrow> error + 'b" where
  "bind_exn m k = (case m of Inl e \<Rightarrow> Inl e | Inr a \<Rightarrow> k a)"

section \<open>Built-in operations of Python used by the module\<close>

text \<open>\<^verbatim>\<open>v[key]\<close> with a string key: only a dictionary can be subscripted by a string.\<close>

fun getitem :: "json \<Rightarrow> string \<Rightarrow> error + json" where
  "getitem (JObj kvs) k =
     (case map_of kvs k of None \<Rightarrow> Inl (KeyError (JStr k)) | Some v \<Rightarrow> Inr v)"
| "getitem v k = Inl TypeError"

text \<open>
  \<^verbatim>\<open>v[i]\<close> with a non-negative integer: a list or a string is indexed, a dictionary
  decoded from JSON has string keys only, anything else cannot be subscripted.
\<close>

fun getindex :: "json \<Rightarrow> nat \<Rightarrow> error + json" where
  "getindex (JList xs) i = (if i < length xs then Inr (xs ! i) else Inl IndexError)"
| "getindex (JStr s) i = (if i < length s then Inr (JStr [s ! i]) else Inl IndexError)"
| "getindex (JObj kvs) i = Inl (KeyError (JInt (int i)))"
| "getindex v i = Inl TypeError"

text \<open>\<^verbatim>\<open>v.get(key)\<close>: a dictionary answers \<^verbatim>\<open>None\<close> for a missing key.\<close>

fun dict_get :: "json \<Rightarrow> string \<Rightarrow> error + json" where
  "dict_get (JObj kvs) k = Inr (case map_of kvs k of None \<Rightarrow> JNull | Some v \<Rightarrow> v)"
| "dict_get v k = Inl (AttributeError ''get'')"

text \<open>The truth value of a Python value, as a conditional expression tests it.\<close>

fun truthy :: "json \<Rightarrow> bool" where
  "truthy JNull = False"
| "truthy (JBool b) = b"
| "truthy (JInt i) = (i \<noteq> 0)"
| "truthy (JStr s) = (s \<noteq> [])"
| "truthy (JList xs) = (xs \<noteq> [])"
| "truthy (JObj kvs) = (kvs \<noteq> [])"

text \<open>\<^verbatim>\<open>'%s' % v\<close> and \<^verbatim>\<open>f'{v}'\<close>: a string is inserted as it is.\<close>

fun py_str :: "('c, 's) env \<Rightarrow> json \<Rightarrow> string" where
  "py_str E (JStr s) = s"
| "py_str E v = str_of E v"

definition startswith :: "string \<Rightarrow> string \<Rightarrow> bool" where
  "startswith s pre \<longleftrightarrow> take (length pre) s = pre"

definition endswith :: "string \<Rightarrow> string \<Rightarrow> bool" where
  "endswith s suf \<longleftrightarrow> length suf \<le> length s \<and> drop (length s - length suf) s = suf"

text \<open>\<^verbatim>\<open>s.split(c)\<close> with a one-character separator: never empty, keeps empty segments.\<close>

fun split :: "string \<Rightarrow> char \<Rightarrow> string list" where
  "split [] c = [[]]"
| "split (x # xs) c =
     (if x = c then [] # split xs c
      else (case split xs c of [] \<Rightarrow> [[x]] | seg # segs \<Rightarrow> (x # seg) # segs))"

text \<open>
  \<^verbatim>\<open>urllib.parse.urlencode\<close> on a dictionary of strings: each key and value goes
  through \<^verbatim>\<open>quote_plus\<close>, which keeps letters, digits and \<^verbatim>\<open>_.-~\<close> (the tilde
  since Python 3.7), turns a space
  into \<^verbatim>\<open>+\<close> and writes any other byte as \<^verbatim>\<open>%\<close> and two upper-case hexadecimal digits;
  the pairs are joined by \<^verbatim>\<open>&\<close>.
\<close>

definition always_safe :: string where
  "always_safe =
     ''ABCDEFGHIJKLMNOPQRSTUVWXYZabcdefghijklmnopqrstuvwxyz0123456789_.-~''"

definition hex_digit :: "nat \<Rightarrow> char" where
  "hex_digit n = ''0123456789ABCDEF'' ! n"

definition quote_char :: "char \<Rightarrow> string" where
  "quote_char c =
     (if c \<in> set always_safe then [c]
      else if c = CHR '' '' then ''+''
      else [CHR ''%'', hex_digit ((of_char c :: nat) div 16), hex_digit ((of_char c :: nat) mod 16)])"

definition quote_plus :: "string \<Rightarrow> string" where
  "quote_plus s = concat (map quote_char s)"

fun urlencode :: "(string \<times> string) list \<Rightarrow> string" where
  "urlencode [] = []"
| "urlencode [(k, v)] = quote_plus k @ ''='' @ quote_plus v"
| "urlencode ((k, v) # rest) = quote_plus k @ ''='' @ quote_plus v @ ''&'' @ urlencode rest"

text \<open>\<^verbatim>\<open>posixpath.join(a, b)\<close> with two strings.\<close>

definition posixpath_join :: "string \<Rightarrow> string \<Rightarrow> string" where
  "posixpath_join a b =
     (if startswith b ''/'' then b
      else if a = [] \<or> endswith a ''/'' then a @ b
      else a @ ''/'' @ b)"

text \<open>
  \<^verbatim>\<open>re.match(r'"(.*)"', t)\<close>: the text has to begin with a double quote (byte 0x22); the
  greedy group then runs to the last double quote before the first newline (byte 0x0A),
  since the dot matches anything but a newline. The result is the group, or \<open>None\<close> when
  there is no match.
\<close>

definition match_quoted :: "string \<Rightarrow> string option" where
  "match_quoted t =
     (case t of
        [] \<Rightarrow> None
      | c # rest \<Rightarrow>
          (let line = takeWhile (\<lambda>x. x \<noteq> CHR 0x0A) rest in
           if c = CHR 0x22 \<and> CHR 0x22 \<in> set line
           then Some (rev (tl (dropWhile (\<lambda>x. x \<noteq> CHR 0x22) (rev line))))
           else None))"

text \<open>
  \<^verbatim>\<open>io.BytesIO(x)\<close> takes a bytes value and gives the stream that holds it; a \<^verbatim>\<open>str\<close>
  (or a stream) is not bytes-like, and the constructor raises TypeError.
\<close>

fun BytesIO :: "fileobj \<Rightarrow> error + fileobj" where
  "BytesIO (Bytes b) = Inr (Stream b)"
| "BytesIO x = Inl TypeError"

text \<open>\<^verbatim>\<open>isinstance(x, str)\<close>: in Python 3 \<^verbatim>\<open>str\<close> is the type of text, not of bytes.\<close>

fun isinstance_str :: "fileobj \<Rightarrow> bool" where
  "isinstance_str (Text t) = True"
| "isinstance_str x = False"

text \<open>The accessors of a response: \<^verbatim>\<open>resp.json()\<close> and \<^verbatim>\<open>resp.headers[k]\<close>.\<close>

definition json_of :: "response \<Rightarrow> error + json" where
  "json_of resp = (case resp_json resp of None \<Rightarrow> Inl JSONDecodeError | Some j \<Rightarrow> Inr j)"

definition header_of :: "response \<Rightarrow> string \<Rightarrow> error + string" where
  "header_of resp k =
     (case resp_headers resp k of None \<Rightarrow> Inl (KeyError (JStr k)) | Some v \<Rightarrow> Inr v)"

section \<open>The Repo class\<close>

record 'c Repo =
  client :: 'c
  repo_id :: json
  repo_name :: json
  encrypted :: json
  owner :: json
  perm :: json

text \<open>
  \<^verbatim>\<open>Repo.from_json\<close> (lines 24 to 33): five subscripts in the order of the source, then
  the constructor. It takes no world: it calls nothing but the subscripts.
\<close>

definition from_json :: "'c \<Rightarrow> json \<Rightarrow> error + 'c Repo" where
  "from_json c repo_json =
     bind_exn (getitem repo_json ''id'') (\<lambda>rid.
     bind_exn (getitem repo_json ''name'') (\<lambda>rname.
     bind_exn (getitem repo_json ''encrypted'') (\<lambda>enc.
     bind_exn (getitem repo_json ''permission'') (\<lambda>p.
     bind_exn (getitem repo_json ''owner'') (\<lambda>own.
       Inr \<lparr>client = c, repo_id = rid, repo_name = rname, encrypted = enc,
            owner = own, perm = p\<rparr>)))))"

definition required_fields :: "string list" where
  "required_fields = [''id'', ''name'', ''encrypted'', ''permission'', ''owner'']"

section \<open>File and directory handles, and the not-found decorator\<close>

text \<open>
  Modelled from the spec: the classes \<^verbatim>\<open>SeafFile\<close> and \<^verbatim>\<open>SeafDir\<close> of
  \<^verbatim>\<open>seafileapi.files\<close> are missing from the sources. A file handle is constructed from
  the repository, a path, an opaque id and a size; a directory handle from the repository, a
  path and an id, and \<^verbatim>\<open>load_entries\<close> populates it with the entries of the JSON body.
\<close>

record 'c SeafFile =
  file_repo :: "'c Repo"
  file_path :: string
  file_id :: json
  file_size :: json

record 'c SeafDir =
  dir_repo :: "'c Repo"
  dir_path :: string
  dir_id :: string
  dir_entries :: "json option"

text \<open>
  Modelled from the spec: the two constructors and \<^verbatim>\<open>SeafDir.load_entries\<close>, missing
  with their classes. They store what they are given, cannot fail and issue no request.
\<close>

definition new_SeafFile :: "'c Repo \<Rightarrow> string \<Rightarrow> json \<Rightarrow> json \<Rightarrow> 'c SeafFile" where
  "new_SeafFile r p fid fsize = \<lparr>file_repo = r, file_path = p, file_id = fid, file_size = fsize\<rparr>"

definition new_SeafDir :: "'c Repo \<Rightarrow> string \<Rightarrow> string \<Rightarrow> 'c SeafDir" where
  "new_SeafDir r p did = \<lparr>dir_repo = r, dir_path = p, dir_id = did, dir_entries = None\<rparr>"

definition load_entries :: "'c SeafDir \<Rightarrow> json \<Rightarrow> 'c SeafDir" where
  "load_entries d dir_json = d\<lparr>dir_entries := Some dir_json\<rparr>"

text \<open>
  Modelled from the spec: the decorator \<^verbatim>\<open>raise_does_not_exist\<close> of
  \<^verbatim>\<open>seafileapi.utils\<close> and the transport client are missing from the sources. The
  transport reports a response status that is not a success by raising \<open>HttpError\<close> with the
  status; the decorator turns the "not found" status, 404, into \<open>DoesNotExist\<close> with the
  message it was given, and lets every other outcome of the decorated method through.
\<close>

definition raise_does_not_exist :: "string \<Rightarrow> (error + 'a) \<times> 'w \<Rightarrow> (error + 'a) \<times> 'w" where
  "raise_does_not_exist msg res =
     (case res of
        (Inl (HttpError status), w) \<Rightarrow>
          if status = 404 then (Inl (DoesNotExist msg), w) else res
      | _ \<Rightarrow> res)"

section \<open>The operations of Repo\<close>

text \<open>
  \<^verbatim>\<open>get_file\<close> (lines 38 to 49). The argument is any Python value: a value that is not a
  string has no \<^verbatim>\<open>startswith\<close>.
\<close>

definition get_file_body ::
  "('c, 's) env \<Rightarrow> 'c Repo \<Rightarrow> json \<Rightarrow> 's world \<Rightarrow> (error + 'c SeafFile) \<times> 's world" where
  "get_file_body E r path w =
     (case path of
        JStr p \<Rightarrow>
          (if \<not> startswith p ''/'' then (Inl AssertionError, w)
           else
             (let url = ''/api2/repos/'' @ py_str E (repo_id r) @ ''/file/detail/'';
                  query = ''?'' @ urlencode [(''p'', p)]
              in and_then (client_get E (client r) (url @ query) w) (\<lambda>resp w1.
                 and_then (json_of resp, w1) (\<lambda>file_json w2.
                 and_then (getitem file_json ''id'', w2) (\<lambda>fid w3.
                 and_then (getitem file_json ''size'', w3) (\<lambda>fsize w4.
                   (Inr (new_SeafFile r p fid fsize), w4)))))))
      | _ \<Rightarrow> (Inl (AttributeError ''startswith''), w))"

definition get_file ::
  "('c, 's) env \<Rightarrow> 'c Repo \<Rightarrow> json \<Rightarrow> 's world \<Rightarrow> (error + 'c SeafFile) \<times> 's world" where
  "get_file E r path w =
     raise_does_not_exist ''The requested file does not exist'' (get_file_body E r path w)"

text \<open>\<^verbatim>\<open>get_dir\<close> (lines 51 to 65).\<close>

definition get_dir_body ::
  "('c, 's) env \<Rightarrow> 'c Repo \<Rightarrow> json \<Rightarrow> 's world \<Rightarrow> (error + 'c SeafDir) \<times> 's world" where
  "get_dir_body E r path w =
     (case path of
        JStr p \<Rightarrow>
          (if \<not> startswith p ''/'' then (Inl AssertionError, w)
           else
             (let url = ''/api2/repos/'' @ py_str E (repo_id r) @ ''/dir/'';
                  query = (if p \<noteq> ''/'' then ''?'' @ urlencode [(''p'', p)] else [])
              in and_then (client_get E (client r) (url @ query) w) (\<lambda>resp w1.
                 and_then (header_of resp ''oid'', w1) (\<lambda>did w2.
                 and_then (json_of resp, w2) (\<lambda>dir_json w3.
                   (Inr (load_entries (new_SeafDir r p did) dir_json), w3))))))
      | _ \<Rightarrow> (Inl (AttributeError ''startswith''), w))"

definition get_dir ::
  "('c, 's) env \<Rightarrow> 'c Repo \<Rightarrow> json \<Rightarrow> 's world \<Rightarrow> (error + 'c SeafDir) \<times> 's world" where
  "get_dir E r path w =
     raise_does_not_exist ''The requested dir does not exist'' (get_dir_body E r path w)"

text \<open>\<^verbatim>\<open>_get_upload_link\<close> (lines 89 to 92); \<^verbatim>\<open>None\<close> has no \<^verbatim>\<open>group\<close>.\<close>

definition get_upload_link ::
  "('c, 's) env \<Rightarrow> 'c Repo \<Rightarrow> 's world \<Rightarrow> (error + string) \<times> 's world" where
  "get_upload_link E r w =
     (let url = ''/api2/repos/'' @ py_str E (repo_id r) @ ''/upload-link/''
      in and_then (client_get E (client r) url w) (\<lambda>resp w1.
           case match_quoted (resp_text resp) of
             None \<Rightarrow> (Inl (AttributeError ''group''), w1)
           | Some link \<Rightarrow> (Inr link, w1)))"

text \<open>
  \<^verbatim>\<open>upload_file\<close> (lines 67 to 87). The file name and the path are strings. The name in
  the response has to be a string for \<^verbatim>\<open>posixpath.join\<close>, which raises TypeError otherwise.
\<close>

definition upload_file ::
  "('c, 's) env \<Rightarrow> 'c Repo \<Rightarrow> fileobj \<Rightarrow> string \<Rightarrow> string \<Rightarrow> 's world
     \<Rightarrow> (error + 'c SeafFile) \<times> 's world" where
  "upload_file E r fileobj filename filepath w =
     and_then ((if isinstance_str fileobj then BytesIO fileobj else Inr fileobj), w) (\<lambda>fobj w0.
     and_then (get_upload_link E r w0) (\<lambda>link w1.
       (let upload_url = link @ ''?ret-json=1'';
            files = \<lparr>file_name = filename, file_obj = fobj, parent_dir = ''/'',
                     relative_path = filepath\<rparr>
        in and_then (client_post E (client r) upload_url files w1) (\<lambda>resp w2.
           and_then (json_of resp, w2) (\<lambda>json_response w3.
           and_then (getindex json_response 0, w3) (\<lambda>first w4.
           and_then (getitem first ''name'', w4) (\<lambda>nm w5.
             case nm of
               JStr n \<Rightarrow> get_file E r (JStr (posixpath_join (''/'' @ filepath) n)) w5
             | _ \<Rightarrow> (Inl TypeError, w5))))))))"

text \<open>\<^verbatim>\<open>get_share_link_details\<close> (lines 94 to 97).\<close>

definition get_share_link_details ::
  "('c, 's) env \<Rightarrow> 'c Repo \<Rightarrow> string \<Rightarrow> 's world \<Rightarrow> (error + json) \<times> 's world" where
  "get_share_link_details E r token w =
     (let url = ''/api/v2.1/share-links/'' @ token @ ''/''
      in and_then (client_get E (client r) url w) (\<lambda>resp w1. (json_of resp, w1)))"

text \<open>
  \<^verbatim>\<open>get_element_by_share_link\<close> (lines 99 to 107). The result is a directory handle or a
  file handle.
\<close>

datatype 'c element = Dir "'c SeafDir" | File "'c SeafFile"

definition returning ::
  "('a \<Rightarrow> 'b) \<Rightarrow> (error + 'a) \<times> 'w \<Rightarrow> (error + 'b) \<times> 'w" where
  "returning f res = (case res of (Inl e, w) \<Rightarrow> (Inl e, w) | (Inr a, w) \<Rightarrow> (Inr (f a), w))"

definition get_element_by_share_link ::
  "('c, 's) env \<Rightarrow> 'c Repo \<Rightarrow> string \<Rightarrow> 's world \<Rightarrow> (error + 'c element) \<times> 's world" where
  "get_element_by_share_link E r share_link w =
     (let splitted_link = split share_link CHR ''/'' in
      if validators_url E share_link \<and> length splitted_link \<ge> 5 then
        (let token = splitted_link ! 4
         in and_then (get_share_link_details E r token w) (\<lambda>share_link_details w1.
            and_then (dict_get share_link_details ''path'', w1) (\<lambda>path w2.
            and_then (dict_get share_link_details ''is_dir'', w2) (\<lambda>is_dir w3.
              if truthy is_dir then returning Dir (get_dir E r path w3)
              else returning File (get_file E r path w3)))))
      else (Inl (ValueError ''Invalid share link''), w))"

text \<open>
  \<^verbatim>\<open>list_history\<close>, \<^verbatim>\<open>update\<close>, \<^verbatim>\<open>get_settings\<close> and \<^verbatim>\<open>restore\<close> (lines 113 to 137):
  the body of each is \<^verbatim>\<open>pass\<close>. The model returns the receiver as well as the world, so
  that what happens to its attributes is part of the result.
\<close>

definition list_history :: "'c Repo \<Rightarrow> 'w \<Rightarrow> (error + unit) \<times> 'c Repo \<times> 'w" where
  "list_history r w = (Inr (), r, w)"

definition update :: "'c Repo \<Rightarrow> json \<Rightarrow> 'w \<Rightarrow> (error + unit) \<times> 'c Repo \<times> 'w" where
  "update r name w = (Inr (), r, w)"

definition get_settings :: "'c Repo \<Rightarrow> 'w \<Rightarrow> (error + unit) \<times> 'c Repo \<times> 'w" where
  "get_settings r w = (Inr (), r, w)"

definition restore :: "'c Repo \<Rightarrow> json \<Rightarrow> 'w \<Rightarrow> (error + unit) \<times> 'c Repo \<times> 'w" where
  "restore r commit_id w = (Inr (), r, w)"

section \<open>The RepoRevision class\<close>

record 'c RepoRevision =
  rev_client :: 'c
  rev_repo :: "'c Repo"
  commit_id :: json

text \<open>
  \<^verbatim>\<open>RepoRevision.restore\<close> (lines 146 to 148) evaluates \<^verbatim>\<open>self.repo.revert\<close> and would
  call it with the commit id. Class Repo defines \<^verbatim>\<open>restore\<close> (line 136) and no
  \<^verbatim>\<open>revert\<close>, and its constructor sets the attributes client, id, name, encrypted, owner
  and perm only: looking the name up on a Repo raises AttributeError, and nothing is
  called. The result has the shape of the result of \<open>restore\<close>.
\<close>

definition RepoRevision_restore ::
  "'c RepoRevision \<Rightarrow> 'w \<Rightarrow> (error + unit) \<times> 'c Repo \<times> 'w" where
  "RepoRevision_restore rv w = (Inl (AttributeError ''revert''), rev_repo rv, w)"

section \<open>A concrete service\<close>

text \<open>
  A small service on which the operations can be run: it knows the upload link of the
  library \<^verbatim>\<open>r1\<close>, the file \<^verbatim>\<open>/docs/a.txt\<close>, the share token \<^verbatim>\<open>tok\<close> and the directory
  \<^verbatim>\<open>/x\<close>, echoes the name \<^verbatim>\<open>a.txt\<close> on every upload, and answers anything else with the
  status 404. Its state counts the requests it has served.
\<close>

definition example_get :: "nat \<Rightarrow> string \<Rightarrow> int \<Rightarrow> (error + response) \<times> int" where
  "example_get c url s =
     (if url = ''/api2/repos/r1/upload-link/'' then
        (Inr \<lparr>resp_headers = (\<lambda>k. None),
              resp_text = [CHR 0x22] @ ''https://up.example/u1'' @ [CHR 0x22],
              resp_json = None\<rparr>, s + 1)
      else if url = ''/api2/repos/r1/file/detail/?p=%2Fdocs%2Fa.txt'' then
        (Inr \<lparr>resp_headers = (\<lambda>k. None), resp_text = [],
              resp_json = Some (JObj [(''id'', JStr ''f1''), (''size'', JInt 2)])\<rparr>, s + 1)
      else if url = ''/api/v2.1/share-links/tok/'' then
        (Inr \<lparr>resp_headers = (\<lambda>k. None), resp_text = [],
              resp_json = Some (JObj [(''path'', JStr ''/x''), (''is_dir'', JBool True)])\<rparr>,
         s + 1)
      else if url = ''/api2/repos/r1/dir/?p=%2Fx'' then
        (Inr \<lparr>resp_headers = (\<lambda>k. if k = ''oid'' then Some ''d1'' else None),
              resp_text = [], resp_json = Some (JList [])\<rparr>, s + 1)
      else (Inl (HttpError 404), s + 1))"

definition example_post ::
  "nat \<Rightarrow> string \<Rightarrow> upload_files \<Rightarrow> int \<Rightarrow> (error + response) \<times> int" where
  "example_post c url files s =
     (Inr \<lparr>resp_headers = (\<lambda>k. None), resp_text = [],
           resp_json = Some (JList [JObj [(''name'', JStr ''a.txt'')]])\<rparr>, s + 1)"

definition example_env :: "(nat, int) env" where
  "example_env =
     \<lparr>http_get = example_get, http_post = example_post,
      validators_url = (\<lambda>u. startswith u ''https://''), str_of = (\<lambda>v. ''None'')\<rparr>"

definition example_repo :: "nat Repo" where
  "example_repo =
     \<lparr>client = 0, repo_id = JStr ''r1'', repo_name = JStr ''lib'', encrypted = JBool False,
      owner = JStr ''me@x.org'', perm = JStr ''rw''\<rparr>"

definition example_world :: "int world" where
  "example_world = \<lparr>calls = [], srv = 0\<rparr>"

definition example_revision :: "nat RepoRevision" where
  "example_revision = \<lparr>rev_client = 0, rev_repo = example_repo, commit_id = JStr ''c1''\<rparr>"

section \<open>Basic facts\<close>

lemma and_then_Inl: "and_then (Inl e, w) k = (Inl e, w)"
  by (simp add: and_then_def)

lemma and_then_Inr: "and_then (Inr a, w) k = k a w"
  by (simp add: and_then_def)

lemma raise_does_not_exist_other:
  "(\<forall>st. e \<noteq> HttpError st) \<Longrightarrow> raise_does_not_exist msg (Inl e, w) = (Inl e, w)"
  by (cases e) (simp_all add: raise_does_not_exist_def)

lemma raise_does_not_exist_404:
  "raise_does_not_exist msg (Inl (HttpError 404), w) = (Inl (DoesNotExist msg), w)"
  by (simp add: raise_does_not_exist_def)

lemma raise_does_not_exist_Inr:
  "raise_does_not_exist msg (Inr a, w) = (Inr a, w)"
  by (simp add: raise_does_not_exist_def)

lemma calls_raise_does_not_exist:
  "calls (snd (raise_does_not_exist msg res)) = calls (snd res)"
  by (auto simp: raise_does_not_exist_def split: prod.splits sum.splits error.splits)

text \<open>Splitting at a separator that the first segment does not contain.\<close>

lemma split_nonempty: "split s c \<noteq> []"
  by (induction s) (auto split: list.splits)

lemma split_append_sep: "c \<notin> set a \<Longrightarrow> split (a @ c # rest) c = a # split rest c"
  by (induction a) (auto split: list.splits simp: split_nonempty)

lemma split_share_link:
  assumes "CHR ''/'' \<notin> set host" and "CHR ''/'' \<notin> set token"
  shows "split (''https://'' @ host @ ''/d/'' @ token @ ''/'') CHR ''/'' =
           [''https:'', [], host, ''d'', token, []]"
proof -
  have a: "split (token @ ''/'') CHR ''/'' = [token, []]"
    using split_append_sep [OF assms(2), of "[]"] by simp
  have b: "split (host @ ''/d/'' @ token @ ''/'') CHR ''/'' = [host, ''d'', token, []]"
    using split_append_sep [OF assms(1), of "''d/'' @ token @ ''/''"] a by simp
  show ?thesis using b by simp
qed

text \<open>The one request of \<open>get_dir\<close> on a rooted path, whatever the service answers.\<close>

lemma get_dir_body_calls:
  "startswith p ''/'' \<Longrightarrow>
   calls (snd (get_dir_body E r (JStr p) w)) =
     calls w @ [GET (''/api2/repos/'' @ py_str E (repo_id r) @ ''/dir/''
        @ (if p \<noteq> ''/'' then ''?'' @ urlencode [(''p'', p)] else []))]"
  by (cases "http_get E (client r) (''/api2/repos/'' @ py_str E (repo_id r) @ ''/dir/''
        @ (if p \<noteq> ''/'' then ''?'' @ urlencode [(''p'', p)] else [])) (srv w)")
     (auto simp: get_dir_body_def client_get_def and_then_def split: sum.splits)

text \<open>The concrete service, evaluated.\<close>

lemma quote_plus_examples:
  "quote_plus ''p'' = ''p''"
  "quote_plus ''/a/b'' = ''%2Fa%2Fb''"
  "quote_plus ''/docs/a.txt'' = ''%2Fdocs%2Fa.txt''"
  "quote_plus ''/x'' = ''%2Fx''"
  "quote_plus ''/nope'' = ''%2Fnope''"
  by (simp_all add: quote_plus_def quote_char_def always_safe_def hex_digit_def)

lemma example_env_fields:
  "http_get example_env = example_get"
  "http_post example_env = example_post"
  "validators_url example_env = (\<lambda>u. startswith u ''https://'')"
  "py_str example_env (JStr x) = x"
  by (simp_all add: example_env_def)

lemma example_repo_fields:
  "client example_repo = 0"
  "repo_id example_repo = JStr ''r1''"
  by (simp_all add: example_repo_def)

lemma example_upload_link:
  "get_upload_link example_env example_repo example_world =
     (Inr ''https://up.example/u1'',
      \<lparr>calls = [GET ''/api2/repos/r1/upload-link/''], srv = 1\<rparr>)"
  by (simp add: get_upload_link_def example_env_fields example_repo_fields example_world_def
        client_get_def example_get_def and_then_Inr match_quoted_def)

section \<open>Paths that are not rooted\<close>

text \<open>
  C1. For every string \<open>p\<close> that does not start with a slash, \<open>get_file\<close> and \<open>get_dir\<close>
  fail with the AssertionError of the \<^verbatim>\<open>assert\<close> on their first line, which is the
  InvalidArgument of the specification, and they return the world they were given: no
  request has been issued and the service has not been touched.
\<close>

theorem get_rejects_relative_path:
  "\<not> startswith p ''/'' \<Longrightarrow>
     get_file E r (JStr p) w = (Inl AssertionError, w)
     \<and> get_dir E r (JStr p) w = (Inl AssertionError, w)
     \<and> kind_of AssertionError = Some InvalidArgument"
  by (simp add: get_file_def get_file_body_def get_dir_def get_dir_body_def
        raise_does_not_exist_other)

theorem get_rejects_relative_path_witness:
  "\<not> startswith ''docs/a.txt'' ''/''
   \<and> get_file example_env example_repo (JStr ''docs/a.txt'') example_world =
       (Inl AssertionError, example_world)
   \<and> get_dir example_env example_repo (JStr ''docs/a.txt'') example_world =
       (Inl AssertionError, example_world)"
proof -
  have h: "\<not> startswith ''docs/a.txt'' ''/''"
    by (simp add: startswith_def)
  show ?thesis
    using h get_rejects_relative_path [OF h, of example_env example_repo example_world]
    by simp
qed

section \<open>Construction from JSON\<close>

text \<open>
  C2. On a JSON object, \<open>from_json\<close> fails exactly when one of the fields id, name,
  encrypted, permission, owner is absent; the failure is then a KeyError on such a field,
  which is the MalformedResponse of the specification. When the five fields are present it
  returns the Repo whose five attributes are the values of the fields. It has no effect:
  it is a function of the client reference and the JSON value alone.
\<close>

theorem from_json_required_fields:
  "((\<exists>e. from_json c (JObj kvs) = Inl e) \<longleftrightarrow>
      (\<exists>k \<in> set required_fields. map_of kvs k = None))
   \<and> (\<forall>e. from_json c (JObj kvs) = Inl e \<longrightarrow>
        (\<exists>k \<in> set required_fields. map_of kvs k = None \<and> e = KeyError (JStr k))
        \<and> kind_of e = Some MalformedResponse)
   \<and> (\<forall>i n e p ow.
        map_of kvs ''id'' = Some i \<and> map_of kvs ''name'' = Some n
        \<and> map_of kvs ''encrypted'' = Some e \<and> map_of kvs ''permission'' = Some p
        \<and> map_of kvs ''owner'' = Some ow \<longrightarrow>
        from_json c (JObj kvs) =
          Inr \<lparr>client = c, repo_id = i, repo_name = n, encrypted = e, owner = ow, perm = p\<rparr>)"
  by (auto simp: from_json_def bind_exn_def required_fields_def split: option.splits)

theorem from_json_required_fields_witness:
  "from_json (7::nat) (JObj [(''id'', JStr ''r1''), (''name'', JStr ''lib''),
       (''encrypted'', JBool False), (''permission'', JStr ''rw''),
       (''owner'', JStr ''me@x.org'')]) =
     Inr \<lparr>client = 7, repo_id = JStr ''r1'', repo_name = JStr ''lib'',
          encrypted = JBool False, owner = JStr ''me@x.org'', perm = JStr ''rw''\<rparr>
   \<and> from_json (7::nat) (JObj [(''id'', JStr ''r1''), (''name'', JStr ''lib'')]) =
       Inl (KeyError (JStr ''encrypted''))
   \<and> (\<exists>k \<in> set required_fields.
         map_of [(''id'', JStr ''r1''), (''name'', JStr ''lib'')] k = None)"
  using from_json_required_fields [of "7::nat" "[(''id'', JStr ''r1''), (''name'', JStr ''lib''),
       (''encrypted'', JBool False), (''permission'', JStr ''rw''),
       (''owner'', JStr ''me@x.org'')]"]
    from_json_required_fields [of "7::nat" "[(''id'', JStr ''r1''), (''name'', JStr ''lib'')]"]
  by (simp add: from_json_def bind_exn_def required_fields_def)

section \<open>Uploading\<close>

text \<open>
  C3. A raw byte sequence given as \<^verbatim>\<open>fileobj\<close> is not wrapped into a stream. The test of
  line 77 is \<^verbatim>\<open>isinstance(fileobj, str)\<close>, and a bytes value is not a \<^verbatim>\<open>str\<close>: the upload
  request carries the bytes themselves, where wrapping would have put the stream
  \<open>Stream ''hi''\<close> there. A \<^verbatim>\<open>str\<close> passes the test and reaches \<^verbatim>\<open>io.BytesIO\<close>, which
  refuses it: the call ends with TypeError and no request is issued.
\<close>

theorem upload_file_raw_sequence_not_wrapped:
  "upload_file example_env example_repo (Text ''hi'') ''a.txt'' ''docs'' example_world =
     (Inl TypeError, example_world)
   \<and> calls (snd (upload_file example_env example_repo (Bytes ''hi'') ''a.txt'' ''docs''
                   example_world)) =
       [GET ''/api2/repos/r1/upload-link/'',
        POST ''https://up.example/u1?ret-json=1''
          \<lparr>file_name = ''a.txt'', file_obj = Bytes ''hi'', parent_dir = ''/'',
           relative_path = ''docs''\<rparr>,
        GET ''/api2/repos/r1/file/detail/?p=%2Fdocs%2Fa.txt'']
   \<and> BytesIO (Bytes ''hi'') = Inr (Stream ''hi'')"
proof -
  have t: "upload_file example_env example_repo (Text ''hi'') ''a.txt'' ''docs'' example_world =
     (Inl TypeError, example_world)"
    by (simp add: upload_file_def and_then_Inl)
  have b: "upload_file example_env example_repo (Bytes ''hi'') ''a.txt'' ''docs'' example_world =
     get_file example_env example_repo (JStr ''/docs/a.txt'')
       \<lparr>calls = [GET ''/api2/repos/r1/upload-link/'',
                 POST ''https://up.example/u1?ret-json=1''
                   \<lparr>file_name = ''a.txt'', file_obj = Bytes ''hi'', parent_dir = ''/'',
                    relative_path = ''docs''\<rparr>], srv = 2\<rparr>"
    by (simp add: upload_file_def and_then_Inr example_upload_link client_post_def
        example_env_fields example_post_def json_of_def posixpath_join_def startswith_def
        endswith_def)
  have g: "calls (snd (get_file example_env example_repo (JStr ''/docs/a.txt'')
       \<lparr>calls = cs, srv = 2\<rparr>)) = cs @ [GET ''/api2/repos/r1/file/detail/?p=%2Fdocs%2Fa.txt'']" for cs
    by (simp add: get_file_def get_file_body_def startswith_def example_env_fields
        example_repo_fields client_get_def example_get_def and_then_Inr json_of_def
        quote_plus_examples raise_does_not_exist_Inr)
  show ?thesis using t b g by simp
qed

text \<open>
  C7. When \<^verbatim>\<open>fileobj\<close> is a file object (anything but a \<^verbatim>\<open>str\<close>), the upload link has
  been obtained, and the upload request is answered by a list whose first element is an
  object with the string \<open>n\<close> under \<^verbatim>\<open>name\<close>, then \<open>upload_file\<close> returns what \<open>get_file\<close>
  returns on the path joined from \<^verbatim>\<open>'/' + filepath\<close> and \<open>n\<close>, in the world that the
  upload request has left. For the path \<^verbatim>\<open>docs\<close> and the name \<^verbatim>\<open>a.txt\<close> the joined path is
  \<^verbatim>\<open>/docs/a.txt\<close>.
\<close>

theorem upload_file_resolves_uploaded:
  assumes "\<not> isinstance_str fileobj"
    and "get_upload_link E r w = (Inr link, w1)"
    and "client_post E (client r) (link @ ''?ret-json=1'')
           \<lparr>file_name = filename, file_obj = fileobj, parent_dir = ''/'',
            relative_path = filepath\<rparr> w1 = (Inr resp, w2)"
    and "resp_json resp = Some (JList (JObj kvs # others))"
    and "map_of kvs ''name'' = Some (JStr n)"
  shows "upload_file E r fileobj filename filepath w =
           get_file E r (JStr (posixpath_join (''/'' @ filepath) n)) w2
         \<and> posixpath_join (''/'' @ ''docs'') ''a.txt'' = ''/docs/a.txt''"
  using assms
  by (simp add: upload_file_def and_then_Inr json_of_def posixpath_join_def startswith_def
        endswith_def)

theorem upload_file_resolves_uploaded_witness:
  "\<not> isinstance_str (Stream ''hi'')
   \<and> get_upload_link example_env example_repo example_world =
       (Inr ''https://up.example/u1'',
        \<lparr>calls = [GET ''/api2/repos/r1/upload-link/''], srv = 1\<rparr>)
   \<and> upload_file example_env example_repo (Stream ''hi'') ''a.txt'' ''docs'' example_world =
       get_file example_env example_repo (JStr ''/docs/a.txt'')
         \<lparr>calls = [GET ''/api2/repos/r1/upload-link/'',
                   POST ''https://up.example/u1?ret-json=1''
                     \<lparr>file_name = ''a.txt'', file_obj = Stream ''hi'', parent_dir = ''/'',
                      relative_path = ''docs''\<rparr>], srv = 2\<rparr>"
proof -
  let ?files = "\<lparr>file_name = ''a.txt'', file_obj = Stream ''hi'', parent_dir = ''/'',
                  relative_path = ''docs''\<rparr>"
  let ?resp = "\<lparr>resp_headers = (\<lambda>k. None), resp_text = [],
                 resp_json = Some (JList [JObj [(''name'', JStr ''a.txt'')]])\<rparr>"
  let ?w1 = "\<lparr>calls = [GET ''/api2/repos/r1/upload-link/''], srv = 1::int\<rparr>"
  let ?w2 = "\<lparr>calls = [GET ''/api2/repos/r1/upload-link/'',
                        POST ''https://up.example/u1?ret-json=1'' ?files], srv = 2::int\<rparr>"
  have h1: "\<not> isinstance_str (Stream ''hi'')" by simp
  have h2: "get_upload_link example_env example_repo example_world =
              (Inr ''https://up.example/u1'', ?w1)"
    by (rule example_upload_link)
  have h3: "client_post example_env (client example_repo)
              (''https://up.example/u1'' @ ''?ret-json=1'') ?files ?w1 = (Inr ?resp, ?w2)"
    by (simp add: client_post_def example_env_fields example_post_def)
  have h4: "resp_json ?resp = Some (JList (JObj [(''name'', JStr ''a.txt'')] # []))" by simp
  have h5: "map_of [(''name'', JStr ''a.txt'')] ''name'' = Some (JStr ''a.txt'')" by simp
  show ?thesis
    using h1 h2 upload_file_resolves_uploaded [OF h1 h2 h3 h4 h5]
    by (simp add: posixpath_join_def startswith_def endswith_def)
qed

section \<open>Revisions\<close>

text \<open>
  C4. \<^verbatim>\<open>RepoRevision.restore\<close> does not reach the \<^verbatim>\<open>restore\<close> of its repository: it
  asks the Repo for \<^verbatim>\<open>revert\<close>, which the class does not have, and ends with
  AttributeError, while \<open>restore\<close> with the commit id of the revision returns \<^verbatim>\<open>None\<close>.
\<close>

theorem revision_restore_raises:
  "RepoRevision_restore example_revision example_world =
     (Inl (AttributeError ''revert''), example_repo, example_world)
   \<and> restore (rev_repo example_revision) (commit_id example_revision) example_world =
       (Inr (), example_repo, example_world)"
  by (simp add: RepoRevision_restore_def restore_def example_revision_def)


section \<open>Share links\<close>

text \<open>
  C5. For every string that \<^verbatim>\<open>validators.url\<close> does not accept, or that splits at the
  slashes into fewer than five segments, \<open>get_element_by_share_link\<close> fails with
  \<^verbatim>\<open>ValueError('Invalid share link')\<close>, the InvalidArgument of the specification, and
  returns the world it was given: no request has been issued.
\<close>

theorem share_link_invalid:
  "\<not> validators_url E link \<or> length (split link CHR ''/'') < 5 \<Longrightarrow>
     get_element_by_share_link E r link w = (Inl (ValueError ''Invalid share link''), w)
     \<and> kind_of (ValueError ''Invalid share link'') = Some InvalidArgument"
  by (auto simp: get_element_by_share_link_def Let_def)

theorem share_link_invalid_witness:
  "length (split ''https://host/d'' CHR ''/'') < 5
   \<and> get_element_by_share_link example_env example_repo ''https://host/d'' example_world =
       (Inl (ValueError ''Invalid share link''), example_world)
   \<and> \<not> validators_url example_env ''ftp''
   \<and> get_element_by_share_link example_env example_repo ''ftp'' example_world =
       (Inl (ValueError ''Invalid share link''), example_world)"
proof -
  have l: "length (split ''https://host/d'' CHR ''/'') < 5"
    by simp
  have v: "\<not> validators_url example_env ''ftp''"
    by (simp add: example_env_fields startswith_def)
  have h1: "\<not> validators_url example_env ''https://host/d''
              \<or> length (split ''https://host/d'' CHR ''/'') < 5"
    using l by simp
  have h2: "\<not> validators_url example_env ''ftp'' \<or> length (split ''ftp'' CHR ''/'') < 5"
    using v by simp
  show ?thesis
    using l v share_link_invalid [OF h1, of example_repo example_world]
      share_link_invalid [OF h2, of example_repo example_world]
    by simp
qed

text \<open>
  C8. For a link \<^verbatim>\<open>https://host/d/token/\<close> that \<^verbatim>\<open>validators.url\<close> accepts, where the host
  and the token contain no slash, the segment at index 4 is the token; when the details
  fetched for that token are a JSON object, the call returns what \<open>get_dir\<close> returns on
  the \<^verbatim>\<open>path\<close> of the details if their \<^verbatim>\<open>is_dir\<close> is true, and what \<open>get_file\<close> returns on
  it otherwise, in the world that fetching the details has left. With the details
  \<^verbatim>\<open>{path: "/x", is_dir: true}\<close> that is the result of \<open>get_dir\<close> on \<^verbatim>\<open>/x\<close>.
\<close>

theorem share_link_dispatch:
  assumes "validators_url E link"
    and "link = ''https://'' @ host @ ''/d/'' @ token @ ''/''"
    and "CHR ''/'' \<notin> set host" and "CHR ''/'' \<notin> set token"
    and "get_share_link_details E r token w = (Inr (JObj d), w1)"
  shows "split link CHR ''/'' ! 4 = token
         \<and> get_element_by_share_link E r link w =
             (if truthy (case map_of d ''is_dir'' of None \<Rightarrow> JNull | Some v \<Rightarrow> v)
              then returning Dir
                     (get_dir E r (case map_of d ''path'' of None \<Rightarrow> JNull | Some v \<Rightarrow> v) w1)
              else returning File
                     (get_file E r (case map_of d ''path'' of None \<Rightarrow> JNull | Some v \<Rightarrow> v) w1))
         \<and> (map_of d ''path'' = Some (JStr ''/x'') \<and> map_of d ''is_dir'' = Some (JBool True) \<longrightarrow>
              get_element_by_share_link E r link w = returning Dir (get_dir E r (JStr ''/x'') w1))"
proof -
  have sp: "split link CHR ''/'' = [''https:'', [], host, ''d'', token, []]"
    using split_share_link [OF assms(3) assms(4)] assms(2) by simp
  show ?thesis
    using assms(1) assms(5)
    by (simp add: get_element_by_share_link_def sp and_then_Inr)
qed

theorem share_link_dispatch_witness:
  "validators_url example_env ''https://host/d/tok/''
   \<and> get_share_link_details example_env example_repo ''tok'' example_world =
       (Inr (JObj [(''path'', JStr ''/x''), (''is_dir'', JBool True)]),
        \<lparr>calls = [GET ''/api/v2.1/share-links/tok/''], srv = 1\<rparr>)
   \<and> get_element_by_share_link example_env example_repo ''https://host/d/tok/'' example_world =
       returning Dir (get_dir example_env example_repo (JStr ''/x'')
         \<lparr>calls = [GET ''/api/v2.1/share-links/tok/''], srv = 1\<rparr>)
   \<and> get_element_by_share_link example_env example_repo ''https://host/d/tok/'' example_world =
       (Inr (Dir \<lparr>dir_repo = example_repo, dir_path = ''/x'', dir_id = ''d1'',
                  dir_entries = Some (JList [])\<rparr>),
        \<lparr>calls = [GET ''/api/v2.1/share-links/tok/'', GET ''/api2/repos/r1/dir/?p=%2Fx''],
         srv = 2\<rparr>)"
proof -
  let ?d = "[(''path'', JStr ''/x''), (''is_dir'', JBool True)]"
  let ?w1 = "\<lparr>calls = [GET ''/api/v2.1/share-links/tok/''], srv = 1::int\<rparr>"
  have h1: "validators_url example_env ''https://host/d/tok/''"
    by (simp add: example_env_fields startswith_def)
  have h2: "''https://host/d/tok/'' = ''https://'' @ ''host'' @ ''/d/'' @ ''tok'' @ ''/''"
    by simp
  have h3: "CHR ''/'' \<notin> set ''host''" by simp
  have h4: "CHR ''/'' \<notin> set ''tok''" by simp
  have h5: "get_share_link_details example_env example_repo ''tok'' example_world =
              (Inr (JObj ?d), ?w1)"
    by (simp add: get_share_link_details_def client_get_def example_env_fields
          example_repo_fields example_get_def example_world_def and_then_Inr json_of_def)
  have g: "get_dir example_env example_repo (JStr ''/x'') ?w1 =
             (Inr \<lparr>dir_repo = example_repo, dir_path = ''/x'', dir_id = ''d1'',
                   dir_entries = Some (JList [])\<rparr>,
              \<lparr>calls = [GET ''/api/v2.1/share-links/tok/'', GET ''/api2/repos/r1/dir/?p=%2Fx''],
               srv = 2\<rparr>)"
    by (simp add: get_dir_def get_dir_body_def startswith_def example_env_fields
          example_repo_fields client_get_def example_get_def and_then_Inr json_of_def
          header_of_def quote_plus_examples raise_does_not_exist_Inr new_SeafDir_def
          load_entries_def)
  show ?thesis
    using h1 h5 g share_link_dispatch [OF h1 h2 h3 h4 h5]
    by (simp add: returning_def)
qed

section \<open>Not found\<close>

text \<open>
  C6. For a rooted path, when the transport answers the request of \<open>get_file\<close> with the
  status 404, the call fails with \<open>DoesNotExist\<close>, the NotFound of the specification,
  carrying the message \<^verbatim>\<open>The requested file does not exist\<close>; when it answers the
  request of \<open>get_dir\<close> so, the message is \<^verbatim>\<open>The requested dir does not exist\<close>.
\<close>

theorem not_found_message:
  "startswith p ''/'' \<Longrightarrow>
   (http_get E (client r)
        (''/api2/repos/'' @ py_str E (repo_id r) @ ''/file/detail/'' @ ''?'' @ urlencode [(''p'', p)])
        (srv w) = (Inl (HttpError 404), s1) \<longrightarrow>
      fst (get_file E r (JStr p) w) = Inl (DoesNotExist ''The requested file does not exist''))
   \<and> (http_get E (client r)
        (''/api2/repos/'' @ py_str E (repo_id r) @ ''/dir/''
           @ (if p \<noteq> ''/'' then ''?'' @ urlencode [(''p'', p)] else []))
        (srv w) = (Inl (HttpError 404), s2) \<longrightarrow>
      fst (get_dir E r (JStr p) w) = Inl (DoesNotExist ''The requested dir does not exist''))
   \<and> kind_of (DoesNotExist ''The requested file does not exist'') = Some NotFound
   \<and> kind_of (DoesNotExist ''The requested dir does not exist'') = Some NotFound"
  by (simp add: get_file_def get_file_body_def get_dir_def get_dir_body_def client_get_def
        and_then_Inl raise_does_not_exist_404)

theorem not_found_message_witness:
  "startswith ''/nope'' ''/''
   \<and> http_get example_env (client example_repo) ''/api2/repos/r1/file/detail/?p=%2Fnope''
        (srv example_world) = (Inl (HttpError 404), 1)
   \<and> fst (get_file example_env example_repo (JStr ''/nope'') example_world) =
        Inl (DoesNotExist ''The requested file does not exist'')
   \<and> http_get example_env (client example_repo) ''/api2/repos/r1/dir/?p=%2Fnope''
        (srv example_world) = (Inl (HttpError 404), 1)
   \<and> fst (get_dir example_env example_repo (JStr ''/nope'') example_world) =
        Inl (DoesNotExist ''The requested dir does not exist'')"
proof -
  have h: "startswith ''/nope'' ''/''"
    by (simp add: startswith_def)
  have f: "http_get example_env (client example_repo) ''/api2/repos/r1/file/detail/?p=%2Fnope''
        (srv example_world) = (Inl (HttpError 404), 1)"
    by (simp add: example_env_fields example_get_def example_world_def)
  have d: "http_get example_env (client example_repo) ''/api2/repos/r1/dir/?p=%2Fnope''
        (srv example_world) = (Inl (HttpError 404), 1)"
    by (simp add: example_env_fields example_get_def example_world_def)
  show ?thesis
    using h f d not_found_message [OF h, of example_env example_repo example_world 1 1]
    by (simp add: example_env_fields example_repo_fields quote_plus_examples)
qed

section \<open>The query of a directory listing\<close>

text \<open>
  C9. \<open>get_dir\<close> on the root path issues one request, to \<^verbatim>\<open>/api2/repos/{id}/dir/\<close> with
  nothing appended. On any other rooted path it issues one request, to the same URL
  followed by a question mark and the encoded query, which is \<^verbatim>\<open>p=\<close> and the quoted path;
  for \<^verbatim>\<open>/a/b\<close> the query is \<^verbatim>\<open>p=%2Fa%2Fb\<close>.
\<close>

theorem get_dir_query:
  "calls (snd (get_dir E r (JStr ''/'') w)) =
     calls w @ [GET (''/api2/repos/'' @ py_str E (repo_id r) @ ''/dir/'')]
   \<and> (startswith p ''/'' \<and> p \<noteq> ''/'' \<longrightarrow>
        calls (snd (get_dir E r (JStr p) w)) =
          calls w @ [GET (''/api2/repos/'' @ py_str E (repo_id r) @ ''/dir/'' @ ''?''
                          @ urlencode [(''p'', p)])])
   \<and> urlencode [(''p'', p)] = ''p='' @ quote_plus p
   \<and> urlencode [(''p'', ''/a/b'')] = ''p=%2Fa%2Fb''"
proof -
  have root: "startswith ''/'' ''/''" by (simp add: startswith_def)
  show ?thesis
    using get_dir_body_calls [OF root, of E r w] get_dir_body_calls [of p E r w]
    by (simp add: get_dir_def calls_raise_does_not_exist quote_plus_examples)
qed

theorem get_dir_query_witness:
  "startswith ''/a/b'' ''/'' \<and> ''/a/b'' \<noteq> ''/''
   \<and> calls (snd (get_dir example_env example_repo (JStr ''/'') example_world)) =
       [GET ''/api2/repos/r1/dir/'']
   \<and> calls (snd (get_dir example_env example_repo (JStr ''/a/b'') example_world)) =
       [GET ''/api2/repos/r1/dir/?p=%2Fa%2Fb'']"
proof -
  have h: "startswith ''/a/b'' ''/'' \<and> ''/a/b'' \<noteq> ''/''"
    by (simp add: startswith_def)
  show ?thesis
    using h get_dir_query [of example_env example_repo example_world "''/a/b''"]
    by (simp add: example_env_fields example_repo_fields example_world_def quote_plus_examples)
qed

section \<open>The operations that are not implemented\<close>

text \<open>
  C10. \<open>list_history\<close>, \<open>update\<close>, \<open>get_settings\<close> and \<open>restore\<close> return \<^verbatim>\<open>None\<close> on every
  input, raise nothing, and leave the Repo and the world as they were: no request is
  issued, and \<open>restore\<close> in particular does nothing without saying so.
\<close>

theorem unimplemented_operations_do_nothing:
  "list_history r w = (Inr (), r, w) \<and> update r name w = (Inr (), r, w)
   \<and> get_settings r w = (Inr (), r, w) \<and> restore r commit w = (Inr (), r, w)"
  by (simp add: list_history_def update_def get_settings_def restore_def)

end
